theory Spec2Isabelle
  imports Complex_Main "HOL-Library.FSet"
begin

text \<open>
  The latitude-band page: a loader for the rows of \<open>data/zonal_anomaly.csv\<close>, a grouping
  of six latitude bands into three groups that clicks cycle through, and an averager
  that turns the rows and the grouping into one yearly series per group. The page comes
  in three grouping variants: \<open>global.js\<close>, an annotated variant with two reset buttons,
  and a variant with a plain strip map. Definitions carry the names of the functions
  they embed; the functions of the second and third variant have the suffixes
  \<open>_annotated\<close> and \<open>_strip\<close>.
\<close>

section \<open>Data model\<close>

text \<open>
  A JavaScript number as the loader produces it with unary plus: either a finite value
  or \<open>NaN\<close>. Finite values are idealised as reals (rounding and the infinities are not
  modelled). Equality of this type is the key equality of a JavaScript \<open>Map\<close>
  (SameValueZero: \<open>NaN\<close> equals \<open>NaN\<close>, and \<open>-0\<close> equals \<open>0\<close>).
\<close>

datatype jsnum = NaN | Fin real

text \<open>One row of the loaded data: \<open>{year: +d.year, lat: +d.lat, tas: +d.tas}\<close>.\<close>

record sample =
  year :: jsnum
  lat :: jsnum
  tas :: jsnum

text \<open>A latitude band \<open>{id, min, max}\<close>.\<close>

record band =
  id_band :: nat
  min_band :: real
  max_band :: real

definition latitudeBands :: "band list" where
  "latitudeBands =
     [\<lparr>id_band = 0, min_band = -90, max_band = -60\<rparr>,
      \<lparr>id_band = 1, min_band = -60, max_band = -30\<rparr>,
      \<lparr>id_band = 2, min_band = -30, max_band = 0\<rparr>,
      \<lparr>id_band = 3, min_band = 0, max_band = 30\<rparr>,
      \<lparr>id_band = 4, min_band = 30, max_band = 60\<rparr>,
      \<lparr>id_band = 5, min_band = 60, max_band = 90\<rparr>]"

text \<open>
  The grouping object \<open>userGroups = {1: Set, 2: Set, 3: Set}\<close>: the group number gives
  the \<open>Set\<close> of band ids. The program reads and writes the keys 1, 2 and 3 only; the
  model holds the empty set at every other key and never touches it.
\<close>

type_synonym groups = "nat \<Rightarrow> nat fset"

definition initial_groups :: groups where
  "initial_groups = (\<lambda>g. {||})"

section \<open>The click cycle\<close>

text \<open>
  \<open>handleBandClick\<close> of \<open>global.js\<close>: the loop over \<open>g = 1, 2, 3\<close> returns at the first
  group that has the band, after deleting it there and adding it to group \<open>g + 1\<close> when
  \<open>g < 3\<close>; when the loop ends without a hit the band is added to group 1.
\<close>

fun handleBandClick_loop :: "nat list \<Rightarrow> nat \<Rightarrow> groups \<Rightarrow> groups" where
  "handleBandClick_loop [] bandId userGroups =
     userGroups(1 := finsert bandId (userGroups 1))"
| "handleBandClick_loop (g # gs) bandId userGroups =
     (if bandId |\<in>| userGroups g then
        (let deleted = userGroups(g := userGroups g |-| {|bandId|})
         in if g < 3 then deleted(g + 1 := finsert bandId (deleted (g + 1))) else deleted)
      else handleBandClick_loop gs bandId userGroups)"

definition handleBandClick :: "nat \<Rightarrow> groups \<Rightarrow> groups" where
  "handleBandClick bandId userGroups = handleBandClick_loop [1, 2, 3] bandId userGroups"

text \<open>The same function as the second and the third grouping variant write it.\<close>

fun handleBandClick_loop_annotated :: "nat list \<Rightarrow> nat \<Rightarrow> groups \<Rightarrow> groups" where
  "handleBandClick_loop_annotated [] bandId userGroups =
     userGroups(1 := finsert bandId (userGroups 1))"
| "handleBandClick_loop_annotated (g # gs) bandId userGroups =
     (if bandId |\<in>| userGroups g then
        (let deleted = userGroups(g := userGroups g |-| {|bandId|})
         in if g < 3 then deleted(g + 1 := finsert bandId (deleted (g + 1))) else deleted)
      else handleBandClick_loop_annotated gs bandId userGroups)"

definition handleBandClick_annotated :: "nat \<Rightarrow> groups \<Rightarrow> groups" where
  "handleBandClick_annotated bandId userGroups =
     handleBandClick_loop_annotated [1, 2, 3] bandId userGroups"

fun handleBandClick_loop_strip :: "nat list \<Rightarrow> nat \<Rightarrow> groups \<Rightarrow> groups" where
  "handleBandClick_loop_strip [] bandId userGroups =
     userGroups(1 := finsert bandId (userGroups 1))"
| "handleBandClick_loop_strip (g # gs) bandId userGroups =
     (if bandId |\<in>| userGroups g then
        (let deleted = userGroups(g := userGroups g |-| {|bandId|})
         in if g < 3 then deleted(g + 1 := finsert bandId (deleted (g + 1))) else deleted)
      else handleBandClick_loop_strip gs bandId userGroups)"

definition handleBandClick_strip :: "nat \<Rightarrow> groups \<Rightarrow> groups" where
  "handleBandClick_strip bandId userGroups =
     handleBandClick_loop_strip [1, 2, 3] bandId userGroups"

text \<open>
  The group a band is shown in: the map renderers colour a band by the first of the
  groups 1, 2, 3 that has it, and leave it uncoloured (here 0) when none has.
\<close>

definition band_assignment :: "groups \<Rightarrow> nat \<Rightarrow> nat" where
  "band_assignment userGroups bandId =
     (case find (\<lambda>g. bandId |\<in>| userGroups g) [1, 2, 3] of
        Some g \<Rightarrow> g
      | None \<Rightarrow> 0)"

text \<open>
  The two assignments of the annotated variant that replace the whole grouping object:
  \<open>applyDefaultPreset\<close> (at load and in the restore-defaults listener) and the first
  statement of the clear-all listener. Each is a function of the grouping before it, which
  it ignores.
\<close>

definition applyDefaultPreset :: "groups \<Rightarrow> groups" where
  "applyDefaultPreset userGroups =
     (\<lambda>g. if g = 1 then {|0, 5|} else if g = 2 then {|1, 4|}
          else if g = 3 then {|2, 3|} else {||})"

definition clear_all :: "groups \<Rightarrow> groups" where
  "clear_all userGroups = (\<lambda>g. {||})"

text \<open>
  The grouping states the page can be in: it starts with three empty sets; a click on a
  band rectangle calls \<open>handleBandClick\<close> with the id of one of \<open>latitudeBands\<close>; the
  buttons replace the whole object.
\<close>

inductive reachable :: "groups \<Rightarrow> bool" where
  start: "reachable initial_groups"
| click: "reachable G \<Longrightarrow> b \<in> set latitudeBands \<Longrightarrow>
     reachable (handleBandClick (id_band b) G)"
| cleared: "reachable G \<Longrightarrow> reachable (clear_all G)"
| restored: "reachable G \<Longrightarrow> reachable (applyDefaultPreset G)"

section \<open>Averaging\<close>

text \<open>
  The two library functions the averager calls are part of d3 (imported by URL, version
  7.9.0), not of this repository; they are modelled after the library's behaviour.

  \<open>d3.mean(values, valueof)\<close> counts and sums the values that are numbers, skipping
  \<open>NaN\<close>, and returns \<open>sum / count\<close> when the count is not zero; otherwise it returns
  \<open>undefined\<close> (here \<open>None\<close>).
\<close>

fun d3_mean_loop :: "nat \<Rightarrow> real \<Rightarrow> 'a list \<Rightarrow> ('a \<Rightarrow> jsnum) \<Rightarrow> nat \<times> real" where
  "d3_mean_loop cnt sm [] valueof = (cnt, sm)"
| "d3_mean_loop cnt sm (v # rest) valueof =
     (case valueof v of
        Fin x \<Rightarrow> d3_mean_loop (cnt + 1) (sm + x) rest valueof
      | NaN \<Rightarrow> d3_mean_loop cnt sm rest valueof)"

definition d3_mean :: "'a list \<Rightarrow> ('a \<Rightarrow> jsnum) \<Rightarrow> jsnum option" where
  "d3_mean vs valueof =
     (case d3_mean_loop 0 0 vs valueof of
        (cnt, sm) \<Rightarrow> if cnt \<noteq> 0 then Some (Fin (sm / real cnt)) else None)"

text \<open>
  \<open>d3.rollups(values, reduce, key)\<close> walks the values once and keeps a \<open>Map\<close> from key to
  the array of values with that key: a value whose key is already there is pushed on
  that array, a new key is entered last. It then returns the entries, in insertion
  order, with each array replaced by \<open>reduce(array)\<close>.
\<close>

fun d3_group_add :: "'k \<Rightarrow> 'a \<Rightarrow> ('k \<times> 'a list) list \<Rightarrow> ('k \<times> 'a list) list" where
  "d3_group_add k v [] = [(k, [v])]"
| "d3_group_add k v ((k', vs) # rest) =
     (if k = k' then (k', vs @ [v]) # rest else (k', vs) # d3_group_add k v rest)"

definition d3_groups :: "'a list \<Rightarrow> ('a \<Rightarrow> 'k) \<Rightarrow> ('k \<times> 'a list) list" where
  "d3_groups vs key = foldl (\<lambda>groups v. d3_group_add (key v) v groups) [] vs"

definition d3_rollups :: "'a list \<Rightarrow> ('a list \<Rightarrow> 'r) \<Rightarrow> ('a \<Rightarrow> 'k) \<Rightarrow> ('k \<times> 'r) list" where
  "d3_rollups vs reduce key = map (\<lambda>(k, group). (k, reduce group)) (d3_groups vs key)"

text \<open>
  The comparisons \<open>d.lat >= b.min\<close> and \<open>d.lat < b.max\<close> of a loaded number with a band
  limit: both are false for \<open>NaN\<close>.
\<close>

definition js_ge :: "jsnum \<Rightarrow> real \<Rightarrow> bool" where
  "js_ge x r = (case x of NaN \<Rightarrow> False | Fin v \<Rightarrow> v \<ge> r)"

definition js_lt :: "jsnum \<Rightarrow> real \<Rightarrow> bool" where
  "js_lt x r = (case x of NaN \<Rightarrow> False | Fin v \<Rightarrow> v < r)"

text \<open>The membership test of the averager: \<open>d.lat >= b.min && d.lat < b.max\<close>.\<close>

definition in_band :: "sample \<Rightarrow> band \<Rightarrow> bool" where
  "in_band d b = (js_ge (lat d) (min_band b) \<and> js_lt (lat d) (max_band b))"

text \<open>One entry \<open>{year, tas}\<close> of a series, and one series \<open>{name, values}\<close>.\<close>

record mean_point =
  point_year :: jsnum
  point_tas :: "jsnum option"

record group_series =
  series_name :: string
  series_values :: "mean_point list"

text \<open>The template literal \<open>`Group ${g}`\<close>, for a group number of one digit.\<close>

definition group_name :: "nat \<Rightarrow> string" where
  "group_name g = ''Group '' @ [char_of (48 + g)]"

text \<open>
  The exception of the averager: \<open>data\<close> is \<open>undefined\<close> when the load failed, and
  \<open>data.filter\<close> then throws.
\<close>

datatype js_error = TypeError

text \<open>
  \<open>computeGroupAverages\<close> of \<open>global.js\<close>. The rows a group keeps (\<open>filtered\<close>) and the
  rollup of these rows (\<open>nested\<close>) are named, for the theorems to speak of them.
\<close>

definition group_rows :: "nat fset \<Rightarrow> band list \<Rightarrow> sample list \<Rightarrow> sample list" where
  "group_rows bandIds bands rows =
     (let groupBandRanges = filter (\<lambda>b. id_band b |\<in>| bandIds) bands
      in filter (\<lambda>d. list_ex (\<lambda>b. in_band d b) groupBandRanges) rows)"

definition yearly_means :: "sample list \<Rightarrow> (jsnum \<times> jsnum option) list" where
  "yearly_means filtered = d3_rollups filtered (\<lambda>v. d3_mean v tas) year"

fun computeGroupAverages_loop ::
  "nat list \<Rightarrow> sample list option \<Rightarrow> groups \<Rightarrow> band list \<Rightarrow> group_series list
     \<Rightarrow> js_error + group_series list" where
  "computeGroupAverages_loop [] data groups bands groupResults = Inr groupResults"
| "computeGroupAverages_loop (g # gs) data groups bands groupResults =
     (let bandIds = groups g in
      if fcard bandIds = 0 then computeGroupAverages_loop gs data groups bands groupResults
      else
        (case data of
           None \<Rightarrow> Inl TypeError
         | Some rows \<Rightarrow>
             (let nested = yearly_means (group_rows bandIds bands rows)
              in computeGroupAverages_loop gs data groups bands
                   (groupResults @
                      [\<lparr>series_name = group_name g,
                        series_values =
                          map (\<lambda>(y, t). \<lparr>point_year = y, point_tas = t\<rparr>) nested\<rparr>]))))"

definition computeGroupAverages ::
  "sample list option \<Rightarrow> groups \<Rightarrow> band list \<Rightarrow> js_error + group_series list" where
  "computeGroupAverages data groups bands =
     computeGroupAverages_loop [1, 2, 3] data groups bands []"

text \<open>\<open>computeGroupAverages\<close> as the annotated variant writes it.\<close>

fun computeGroupAverages_loop_annotated ::
  "nat list \<Rightarrow> sample list option \<Rightarrow> groups \<Rightarrow> band list \<Rightarrow> group_series list
     \<Rightarrow> js_error + group_series list" where
  "computeGroupAverages_loop_annotated [] data groups bands results = Inr results"
| "computeGroupAverages_loop_annotated (g # gs) data groups bands results =
     (let ids = groups g in
      if fcard ids = 0 then computeGroupAverages_loop_annotated gs data groups bands results
      else
        (let ranges = filter (\<lambda>b. id_band b |\<in>| ids) bands in
         case data of
           None \<Rightarrow> Inl TypeError
         | Some rows \<Rightarrow>
             (let filtered =
                    filter (\<lambda>d. list_ex (\<lambda>b. js_ge (lat d) (min_band b) \<and>
                                               js_lt (lat d) (max_band b)) ranges) rows;
                  nested = d3_rollups filtered (\<lambda>v. d3_mean v (\<lambda>d. tas d)) (\<lambda>d. year d)
              in computeGroupAverages_loop_annotated gs data groups bands
                   (results @
                      [\<lparr>series_name = group_name g,
                        series_values =
                          map (\<lambda>(y, t). \<lparr>point_year = y, point_tas = t\<rparr>) nested\<rparr>]))))"

definition computeGroupAverages_annotated ::
  "sample list option \<Rightarrow> groups \<Rightarrow> band list \<Rightarrow> js_error + group_series list" where
  "computeGroupAverages_annotated data groups bands =
     computeGroupAverages_loop_annotated [1, 2, 3] data groups bands []"

text \<open>\<open>computeGroupAverages\<close> as the variant with the plain strip map writes it.\<close>

fun computeGroupAverages_loop_strip ::
  "nat list \<Rightarrow> sample list option \<Rightarrow> groups \<Rightarrow> band list \<Rightarrow> group_series list
     \<Rightarrow> js_error + group_series list" where
  "computeGroupAverages_loop_strip [] data groups bands groupResults = Inr groupResults"
| "computeGroupAverages_loop_strip (g # gs) data groups bands groupResults =
     (let bandIds = groups g in
      if fcard bandIds = 0 then computeGroupAverages_loop_strip gs data groups bands groupResults
      else
        (let groupBandRanges = filter (\<lambda>b. id_band b |\<in>| bandIds) bands in
         case data of
           None \<Rightarrow> Inl TypeError
         | Some rows \<Rightarrow>
             (let filtered =
                    filter (\<lambda>d. list_ex (\<lambda>b. js_ge (lat d) (min_band b) \<and>
                                               js_lt (lat d) (max_band b)) groupBandRanges) rows;
                  nested = d3_rollups filtered (\<lambda>v. d3_mean v (\<lambda>d. tas d)) (\<lambda>d. year d)
              in computeGroupAverages_loop_strip gs data groups bands
                   (groupResults @
                      [\<lparr>series_name = group_name g,
                        series_values =
                          map (\<lambda>(y, t). \<lparr>point_year = y, point_tas = t\<rparr>) nested\<rparr>]))))"

definition computeGroupAverages_strip ::
  "sample list option \<Rightarrow> groups \<Rightarrow> band list \<Rightarrow> js_error + group_series list" where
  "computeGroupAverages_strip data groups bands =
     computeGroupAverages_loop_strip [1, 2, 3] data groups bands []"

section \<open>The annotated chart and the page\<close>

text \<open>
  \<open>groupsMatchDefaultPattern\<close>: \<open>Object.values\<close> and \<open>Object.entries\<close> list the keys 1, 2, 3
  in ascending order. The function returns \<open>polesGroup && midsGroup && midlatGroup\<close>,
  which the caller tests in an \<open>if\<close>: the model returns whether that value is truthy,
  that is, whether the three \<open>find\<close> calls all found an entry.
\<close>

definition groupsMatchDefaultPattern :: "groups \<Rightarrow> bool" where
  "groupsMatchDefaultPattern groups =
     (let entries = map (\<lambda>g. (g, groups g)) [1, 2, 3];
          sizes = map (\<lambda>(g, s). fcard s) entries
      in if \<not> (List.member sizes 2 \<and> length (filter (\<lambda>s. s = 2) sizes) = 3) then False
         else
           (let poles = [0, 5];
                mids = [2, 3];
                midlats = [1, 4];
                polesGroup = find (\<lambda>(g, s). list_all (\<lambda>b. b |\<in>| s) poles) entries;
                midsGroup = find (\<lambda>(g, s). list_all (\<lambda>b. b |\<in>| s) mids) entries;
                midlatGroup = find (\<lambda>(g, s). list_all (\<lambda>b. b |\<in>| s) midlats) entries
            in polesGroup \<noteq> None \<and> midsGroup \<noteq> None \<and> midlatGroup \<noteq> None))"

text \<open>
  What \<open>renderTASChart\<close> of the annotated variant draws, as far as the claims speak of
  it: one line per series, and the two annotation callouts (each a text block with an
  arrow) inside \<open>if (groupsMatchDefaultPattern(userGroups))\<close>. Scales, axes and the
  legend are not modelled.
\<close>

datatype callout = Polar_warming | Aerosol_dip

record chart =
  chart_lines :: "group_series list"
  chart_callouts :: "callout list"

definition renderTASChart :: "groups \<Rightarrow> group_series list \<Rightarrow> chart" where
  "renderTASChart userGroups groupedData =
     \<lparr>chart_lines = groupedData,
      chart_callouts =
        (if groupsMatchDefaultPattern userGroups then [Polar_warming, Aerosol_dip] else [])\<rparr>"

text \<open>
  The state of the page: the global \<open>userGroups\<close> and the chart in \<open>#linechart\<close>.
  \<open>updateChartFromGroups\<close> recomputes the series and redraws; it throws when the averager
  does.
\<close>

record page =
  userGroups :: groups
  linechart :: chart

definition updateChartFromGroups :: "sample list option \<Rightarrow> page \<Rightarrow> js_error + page" where
  "updateChartFromGroups tasData p =
     (case computeGroupAverages_annotated tasData (userGroups p) latitudeBands of
        Inl e \<Rightarrow> Inl e
      | Inr groupedData \<Rightarrow>
          Inr (p\<lparr>linechart := renderTASChart (userGroups p) groupedData\<rparr>))"

text \<open>
  The three listeners. Each first writes the grouping and then updates the chart; when
  the update throws, the exception leaves the listener and the page keeps what was
  written before. (Redrawing the map reads the grouping and writes the map only.)
\<close>

definition band_click :: "sample list option \<Rightarrow> band \<Rightarrow> page \<Rightarrow> page" where
  "band_click tasData d p =
     (let p1 = p\<lparr>userGroups := handleBandClick_annotated (id_band d) (userGroups p)\<rparr>
      in case updateChartFromGroups tasData p1 of Inl e \<Rightarrow> p1 | Inr p2 \<Rightarrow> p2)"

definition clear_all_click :: "sample list option \<Rightarrow> page \<Rightarrow> page" where
  "clear_all_click tasData p =
     (let p1 = p\<lparr>userGroups := clear_all (userGroups p)\<rparr>
      in case updateChartFromGroups tasData p1 of Inl e \<Rightarrow> p1 | Inr p2 \<Rightarrow> p2)"

definition restore_defaults_click :: "sample list option \<Rightarrow> page \<Rightarrow> page" where
  "restore_defaults_click tasData p =
     (let p1 = p\<lparr>userGroups := applyDefaultPreset (userGroups p)\<rparr>
      in case updateChartFromGroups tasData p1 of Inl e \<Rightarrow> p1 | Inr p2 \<Rightarrow> p2)"

section \<open>The data loader\<close>

text \<open>
  \<open>loadTASData\<close>. The outcome of \<open>await d3.csv(url)\<close> (the parsed rows, or the error
  the rejected promise carries) and the unary plus on a cell (a string, or \<open>undefined\<close>
  when the column is missing) are parameters. A row of \<open>d3.csv\<close> maps a column name to
  its text. The log records the requests made and what \<open>console.error\<close> printed.
\<close>

type_synonym csv_row = "string \<Rightarrow> string option"

record 'e io_log =
  requested :: "string list"
  logged :: "'e list"

definition loadTASData ::
  "(string option \<Rightarrow> jsnum) \<Rightarrow> (string \<Rightarrow> 'e + csv_row list) \<Rightarrow> 'e io_log
     \<Rightarrow> 'e io_log \<times> sample list option" where
  "loadTASData to_number d3_csv io =
     (let io1 = io\<lparr>requested := requested io @ [''data/zonal_anomaly.csv'']\<rparr>
      in case d3_csv ''data/zonal_anomaly.csv'' of
           Inr tasData \<Rightarrow>
             (io1, Some (map (\<lambda>d. \<lparr>year = to_number (d ''year''),
                                    lat = to_number (d ''lat''),
                                    tas = to_number (d ''tas'')\<rparr>) tasData))
         | Inl error \<Rightarrow> (io1\<lparr>logged := logged io1 @ [error]\<rparr>, None))"

section \<open>Notions the statements use\<close>

text \<open>
  No band id is in two groups, and every group holds ids of \<open>latitudeBands\<close> only: the
  invariant of the reachable groupings.
\<close>

definition groups_disjoint :: "groups \<Rightarrow> bool" where
  "groups_disjoint G =
     (G 1 |\<inter>| G 2 = {||} \<and> G 1 |\<inter>| G 3 = {||} \<and> G 2 |\<inter>| G 3 = {||})"

definition groups_inv :: "groups \<Rightarrow> bool" where
  "groups_inv G = (groups_disjoint G \<and> (\<forall>g. G g |\<subseteq>| {|0, 1, 2, 3, 4, 5|}))"

text \<open>The groups that are not empty, in the order 1, 2, 3.\<close>

definition nonempty_groups :: "groups \<Rightarrow> nat list" where
  "nonempty_groups groups = filter (\<lambda>g. groups g \<noteq> {||}) [1, 2, 3]"

text \<open>
  A latitude falls in a band, as the bands divide the span they cover: a band takes its
  lower limit; its upper limit belongs to the band that starts there, and to the band
  itself where no band of the list reaches beyond it (for \<open>latitudeBands\<close>: 90 falls in
  the band 60..90). This is stated on the limits of the bands, not through the test of
  the averager.
\<close>

definition falls_in_band :: "band list \<Rightarrow> jsnum \<Rightarrow> band \<Rightarrow> bool" where
  "falls_in_band bands x b =
     (case x of
        NaN \<Rightarrow> False
      | Fin v \<Rightarrow>
          min_band b \<le> v \<and>
          (v < max_band b \<or>
           (v = max_band b \<and> \<not> (\<exists>b' \<in> set bands. min_band b' \<le> v \<and> v < max_band b'))))"

text \<open>
  A latitude at the upper end of the span: the upper limit of a band, with no band of
  the list reaching beyond it (for \<open>latitudeBands\<close>: 90 and nothing else).
\<close>

definition at_span_end :: "band list \<Rightarrow> jsnum \<Rightarrow> bool" where
  "at_span_end bands x =
     (case x of
        NaN \<Rightarrow> False
      | Fin v \<Rightarrow>
          (\<exists>b \<in> set bands. min_band b \<le> v \<and> v = max_band b) \<and>
          \<not> (\<exists>b' \<in> set bands. min_band b' \<le> v \<and> v < max_band b'))"

text \<open>The rows whose latitude falls in a band that the group owns.\<close>

definition owned_rows :: "groups \<Rightarrow> band list \<Rightarrow> nat \<Rightarrow> sample list \<Rightarrow> sample list" where
  "owned_rows groups bands g rows =
     filter (\<lambda>d. \<exists>b \<in> set bands. id_band b |\<in>| groups g \<and> falls_in_band bands (lat d) b)
       rows"

text \<open>The numbers among a list of values, and their arithmetic mean (none without a number).\<close>

fun numeric :: "jsnum list \<Rightarrow> real list" where
  "numeric [] = []"
| "numeric (NaN # vs) = numeric vs"
| "numeric (Fin x # vs) = x # numeric vs"

definition numeric_mean :: "jsnum list \<Rightarrow> jsnum option" where
  "numeric_mean vs =
     (if numeric vs = [] then None
      else Some (Fin (sum_list (numeric vs) / real (length (numeric vs)))))"



section \<open>Example inputs\<close>




definition row_pole :: sample where
  "row_pole = \<lparr>year = Fin 2000, lat = Fin 90, tas = Fin 1\<rparr>"


definition all_in_group1 :: groups where
  "all_in_group1 = initial_groups(1 := {|0, 1, 2, 3, 4, 5|})"

section \<open>Properties of the click cycle\<close>

lemma handleBandClick_unfold:
  "handleBandClick b G =
     (if b |\<in>| G 1 then (G(1 := G 1 |-| {|b|}))(2 := finsert b (G 2))
      else if b |\<in>| G 2 then (G(2 := G 2 |-| {|b|}))(3 := finsert b (G 3))
      else if b |\<in>| G 3 then G(3 := G 3 |-| {|b|})
      else G(1 := finsert b (G 1)))"
  by (simp add: handleBandClick_def Let_def numeral_2_eq_2 numeral_3_eq_3)

lemma band_assignment_unfold:
  "band_assignment G b =
     (if b |\<in>| G 1 then 1 else if b |\<in>| G 2 then 2 else if b |\<in>| G 3 then 3 else 0)"
  by (simp add: band_assignment_def)

lemma click_assignment:
  "band_assignment (handleBandClick b G) b =
     (if band_assignment G b = 3 then 0 else band_assignment G b + 1)"
  by (simp add: band_assignment_unfold handleBandClick_unfold)

lemma four_clicks_assignment:
  "band_assignment
     (handleBandClick b (handleBandClick b (handleBandClick b (handleBandClick b G)))) b
     = band_assignment G b"
  by (simp add: click_assignment) (simp add: band_assignment_unfold)

lemma four_clicks_disjoint:
  assumes "groups_disjoint G"
  shows "handleBandClick b (handleBandClick b (handleBandClick b (handleBandClick b G))) = G"
proof -
  have d: "\<not> (b |\<in>| G 1 \<and> b |\<in>| G 2)" "\<not> (b |\<in>| G 1 \<and> b |\<in>| G 3)"
    "\<not> (b |\<in>| G 2 \<and> b |\<in>| G 3)"
    using assms unfolding groups_disjoint_def by auto
  show ?thesis
    using d by (auto simp add: handleBandClick_unfold fun_eq_iff)
qed

lemma id_latitudeBands:
  "b \<in> set latitudeBands \<Longrightarrow> id_band b |\<in>| {|0, 1, 2, 3, 4, 5|}"
  by (auto simp add: latitudeBands_def)

lemma click_inv:
  assumes "groups_inv G" "b |\<in>| {|0, 1, 2, 3, 4, 5|}"
  shows "groups_inv (handleBandClick b G)"
  using assms unfolding groups_inv_def groups_disjoint_def handleBandClick_unfold
  by (auto simp add: fun_upd_def)

lemma reachable_inv: "reachable G \<Longrightarrow> groups_inv G"
proof (induction rule: reachable.induct)
  case start
  show ?case by (simp add: groups_inv_def groups_disjoint_def initial_groups_def)
next
  case (click G b)
  then show ?case by (intro click_inv id_latitudeBands)
next
  case (cleared G)
  show ?case by (simp add: groups_inv_def groups_disjoint_def clear_all_def)
next
  case (restored G)
  show ?case by (auto simp add: groups_inv_def groups_disjoint_def applyDefaultPreset_def)
qed

lemma inv_total:
  assumes "groups_inv G"
  shows "fcard (G 1) + fcard (G 2) + fcard (G 3) \<le> 6"
proof -
  have d: "G 1 |\<inter>| G 2 = {||}" "(G 1 |\<union>| G 2) |\<inter>| G 3 = {||}"
    using assms unfolding groups_inv_def groups_disjoint_def by auto
  have "fcard (G 1) + fcard (G 2) + fcard (G 3) = fcard (G 1 |\<union>| G 2 |\<union>| G 3)"
    using d by (simp add: fcard_funion_disjoint)
  also have "\<dots> \<le> fcard {|0, 1, 2, 3, 4, 5::nat|}"
    using assms unfolding groups_inv_def by (intro fcard_mono) auto
  also have "\<dots> = 6" by (simp add: fcard_finsert_if)
  finally show ?thesis .
qed

lemma inv_at_most_one:
  assumes "groups_inv G"
  shows "length (filter (\<lambda>g. b |\<in>| G g) [1, 2, 3]) \<le> 1"
  using assms unfolding groups_inv_def groups_disjoint_def by auto

lemma handleBandClick_loop_annotated_eq:
  "handleBandClick_loop_annotated gs b G = handleBandClick_loop gs b G"
  by (induction gs) simp_all

lemma handleBandClick_loop_strip_eq:
  "handleBandClick_loop_strip gs b G = handleBandClick_loop gs b G"
  by (induction gs) simp_all

lemma handleBandClick_annotated_eq: "handleBandClick_annotated b G = handleBandClick b G"
  by (simp add: handleBandClick_annotated_def handleBandClick_def
      handleBandClick_loop_annotated_eq)

lemma handleBandClick_strip_eq: "handleBandClick_strip b G = handleBandClick b G"
  by (simp add: handleBandClick_strip_def handleBandClick_def handleBandClick_loop_strip_eq)

lemma reachable_first_click:
  "reachable (handleBandClick 0 initial_groups)"
  using reachable.click [OF reachable.start,
      of "\<lparr>id_band = 0, min_band = -90, max_band = -60\<rparr>"]
  by (simp add: latitudeBands_def)

text \<open>
  C2: for every band id and every grouping, one call of \<open>handleBandClick\<close> moves the
  band's assignment one step along the cycle unassigned (0), group 1, group 2, group 3,
  unassigned; so four calls on the same band id bring its assignment back to where it
  started, and from a reachable grouping they bring the whole grouping back.
\<close>

theorem click_cycle:
  "band_assignment (handleBandClick b G) b =
     (if band_assignment G b = 3 then 0 else band_assignment G b + 1)
   \<and> band_assignment
       (handleBandClick b (handleBandClick b (handleBandClick b (handleBandClick b G)))) b
       = band_assignment G b
   \<and> (reachable G \<longrightarrow>
       handleBandClick b (handleBandClick b (handleBandClick b (handleBandClick b G))) = G)"
proof (intro conjI impI)
  show "band_assignment (handleBandClick b G) b =
     (if band_assignment G b = 3 then 0 else band_assignment G b + 1)"
    by (rule click_assignment)
  show "band_assignment
       (handleBandClick b (handleBandClick b (handleBandClick b (handleBandClick b G)))) b
       = band_assignment G b"
    by (rule four_clicks_assignment)
next
  assume "reachable G"
  then have "groups_disjoint G"
    using reachable_inv groups_inv_def by blast
  then show "handleBandClick b (handleBandClick b (handleBandClick b (handleBandClick b G))) = G"
    by (rule four_clicks_disjoint)
qed

theorem click_cycle_witness:
  "reachable (handleBandClick 0 initial_groups)
   \<and> band_assignment (handleBandClick 0 initial_groups) 0 = 1
   \<and> band_assignment (handleBandClick 0 (handleBandClick 0 initial_groups)) 0 = 2
   \<and> handleBandClick 0 (handleBandClick 0 (handleBandClick 0 (handleBandClick 0
        (handleBandClick 0 initial_groups)))) = handleBandClick 0 initial_groups"
proof -
  have a: "band_assignment (handleBandClick 0 initial_groups) 0 = 1"
    using click_cycle [of 0 initial_groups]
    by (simp add: band_assignment_unfold initial_groups_def)
  have b: "band_assignment (handleBandClick 0 (handleBandClick 0 initial_groups)) 0 = 2"
    using click_cycle [of 0 "handleBandClick 0 initial_groups"] a by simp
  show ?thesis
    using reachable_first_click click_cycle [of 0 "handleBandClick 0 initial_groups"] a b
    by simp
qed

text \<open>
  C3: in every grouping reached from the initial one by clicks on bands, clear-all and
  restore-defaults, each band id is in at most one of the three groups, and the three
  groups together hold at most 6 band ids.
\<close>

theorem reachable_groups_disjoint_bounded:
  assumes "reachable G"
  shows "(\<forall>b. length (filter (\<lambda>g. b |\<in>| G g) [1, 2, 3]) \<le> 1)
         \<and> fcard (G 1) + fcard (G 2) + fcard (G 3) \<le> 6"
  using reachable_inv [OF assms] inv_total inv_at_most_one by blast

theorem reachable_groups_disjoint_bounded_witness:
  "reachable (handleBandClick 0 initial_groups)
   \<and> length (filter (\<lambda>g. 0 |\<in>| handleBandClick 0 initial_groups g) [1, 2, 3]) = 1
   \<and> fcard (handleBandClick 0 initial_groups 1) + fcard (handleBandClick 0 initial_groups 2)
       + fcard (handleBandClick 0 initial_groups 3) \<le> 6"
  using reachable_first_click
    reachable_groups_disjoint_bounded [OF reachable_first_click]
  by (simp add: handleBandClick_unfold initial_groups_def)

text \<open>
  C7: a call of \<open>handleBandClick\<close> for one band id leaves every other band id in exactly
  the groups it was in. Of the operations of the page, the chart update returns the
  grouping as it found it, and each listener leaves the grouping that the click cycle,
  the clear-all assignment or the preset gives, also when the chart update throws.
\<close>

theorem click_frame:
  "(b \<noteq> b' \<longrightarrow> (\<forall>g. b' |\<in>| handleBandClick b G g \<longleftrightarrow> b' |\<in>| G g))
   \<and> (\<forall>p'. updateChartFromGroups tasData p = Inr p' \<longrightarrow> userGroups p' = userGroups p)
   \<and> userGroups (band_click tasData d p) = handleBandClick (id_band d) (userGroups p)
   \<and> userGroups (clear_all_click tasData p) = clear_all (userGroups p)
   \<and> userGroups (restore_defaults_click tasData p) = applyDefaultPreset (userGroups p)"
proof (intro conjI impI allI)
  assume "b \<noteq> b'"
  then show "b' |\<in>| handleBandClick b G g \<longleftrightarrow> b' |\<in>| G g" for g
    by (auto simp add: handleBandClick_unfold)
next
  show "userGroups p' = userGroups p" if "updateChartFromGroups tasData p = Inr p'" for p'
    using that by (auto simp add: updateChartFromGroups_def split: sum.splits)
next
  show "userGroups (band_click tasData d p) = handleBandClick (id_band d) (userGroups p)"
    by (auto simp add: band_click_def updateChartFromGroups_def Let_def
        handleBandClick_annotated_eq split: sum.splits)
next
  show "userGroups (clear_all_click tasData p) = clear_all (userGroups p)"
    by (auto simp add: clear_all_click_def updateChartFromGroups_def Let_def
        split: sum.splits)
next
  show "userGroups (restore_defaults_click tasData p) = applyDefaultPreset (userGroups p)"
    by (auto simp add: restore_defaults_click_def updateChartFromGroups_def Let_def
        split: sum.splits)
qed

theorem click_frame_witness:
  "(0::nat) \<noteq> 5
   \<and> 5 |\<in>| applyDefaultPreset initial_groups 1
   \<and> 5 |\<in>| handleBandClick 0 (applyDefaultPreset initial_groups) 1
   \<and> 5 |\<notin>| handleBandClick 0 (applyDefaultPreset initial_groups) 2
   \<and> updateChartFromGroups (Some [])
         \<lparr>userGroups = initial_groups,
          linechart = \<lparr>chart_lines = [], chart_callouts = [Aerosol_dip]\<rparr>\<rparr>
       = Inr \<lparr>userGroups = initial_groups,
              linechart = \<lparr>chart_lines = [], chart_callouts = []\<rparr>\<rparr>"
proof -
  have u: "updateChartFromGroups (Some [])
         \<lparr>userGroups = initial_groups,
          linechart = \<lparr>chart_lines = [], chart_callouts = [Aerosol_dip]\<rparr>\<rparr>
       = Inr \<lparr>userGroups = initial_groups,
              linechart = \<lparr>chart_lines = [], chart_callouts = []\<rparr>\<rparr>"
    by (simp add: updateChartFromGroups_def computeGroupAverages_annotated_def
        initial_groups_def renderTASChart_def groupsMatchDefaultPattern_def)
  have m: "5 |\<in>| applyDefaultPreset initial_groups 1"
    by (simp add: applyDefaultPreset_def)
  show ?thesis
    using u m
      click_frame [of 0 5 "applyDefaultPreset initial_groups" "Some []"
        "\<lparr>userGroups = initial_groups,
          linechart = \<lparr>chart_lines = [], chart_callouts = [Aerosol_dip]\<rparr>\<rparr>"]
    by (simp add: applyDefaultPreset_def)
qed

text \<open>
  C8: after the clear-all listener no band is in any group, and after the
  restore-defaults listener group 1 is \<open>{0, 5}\<close>, group 2 is \<open>{1, 4}\<close> and group 3 is
  \<open>{2, 3}\<close>, whatever the page was before.
\<close>

theorem reset_buttons:
  "userGroups (clear_all_click tasData p) 1 = {||}
   \<and> userGroups (clear_all_click tasData p) 2 = {||}
   \<and> userGroups (clear_all_click tasData p) 3 = {||}
   \<and> userGroups (restore_defaults_click tasData p) 1 = {|0, 5|}
   \<and> userGroups (restore_defaults_click tasData p) 2 = {|1, 4|}
   \<and> userGroups (restore_defaults_click tasData p) 3 = {|2, 3|}"
proof -
  have c: "userGroups (clear_all_click tasData p) = clear_all (userGroups p)"
    by (auto simp add: clear_all_click_def updateChartFromGroups_def Let_def
        split: sum.splits)
  have r: "userGroups (restore_defaults_click tasData p) = applyDefaultPreset (userGroups p)"
    by (auto simp add: restore_defaults_click_def updateChartFromGroups_def Let_def
        split: sum.splits)
  show ?thesis
    unfolding c r by (simp add: clear_all_def applyDefaultPreset_def)
qed

section \<open>Properties of the averager\<close>


















lemma falls_in_band_partition:
  assumes "-90 \<le> v" "v \<le> 90"
  shows "length (filter (falls_in_band latitudeBands (Fin v)) latitudeBands) = 1"
  using assms by (simp add: falls_in_band_def latitudeBands_def)

lemma group_name_1: "group_name 1 = ''Group 1''"
  by code_simp

lemma group_name_Suc_0: "group_name (Suc 0) = ''Group 1''"
  using group_name_1 by simp

lemmas averager_eval =
  computeGroupAverages_def initial_groups_def group_rows_def
  latitudeBands_def in_band_def js_ge_def js_lt_def yearly_means_def
  d3_rollups_def d3_groups_def d3_mean_def numeric_mean_def group_name_Suc_0
  nonempty_groups_def

lemmas band_range_eval =
  owned_rows_def falls_in_band_def at_span_end_def

text \<open>
  At the north pole the two notions part: the latitude 90 falls in the band 60..90, and
  the averager keeps no row for it. The statement below leaves such rows out.
\<close>

lemma owned_rows_pole:
  "at_span_end latitudeBands (lat row_pole)
   \<and> owned_rows all_in_group1 latitudeBands 1 [row_pole] = [row_pole]
   \<and> group_rows (all_in_group1 1) latitudeBands [row_pole] = []"
  by (simp add: band_range_eval group_rows_def in_band_def js_ge_def js_lt_def
      latitudeBands_def all_in_group1_def initial_groups_def row_pole_def)







lemma band_partition_below_90:
  "-90 \<le> x \<Longrightarrow> x < 90 \<Longrightarrow>
     length (filter (in_band \<lparr>year = y, lat = Fin x, tas = t\<rparr>) latitudeBands) = 1"
  by (simp add: latitudeBands_def in_band_def js_ge_def js_lt_def)

text \<open>
  C4: a row at latitude 90, inside the span the bands are said to cover, passes the
  membership test of none of the six bands; with all six bands in group 1 the averager
  returns a series without any entry for it.
\<close>

theorem north_pole_excluded:
  "filter (in_band row_pole) latitudeBands = []
   \<and> computeGroupAverages (Some [row_pole]) all_in_group1 latitudeBands
       = Inr [\<lparr>series_name = ''Group 1'', series_values = []\<rparr>]"
  by (simp add: averager_eval all_in_group1_def row_pole_def)

section \<open>The three variants\<close>

lemma computeGroupAverages_loop_annotated_eq:
  "computeGroupAverages_loop_annotated gs data groups bands acc =
     computeGroupAverages_loop gs data groups bands acc"
proof (cases data)
  case None
  show ?thesis
    unfolding None by (induction gs arbitrary: acc) (simp_all add: Let_def)
next
  case (Some rows)
  show ?thesis
    unfolding Some
    by (induction gs arbitrary: acc)
      (simp_all add: Let_def group_rows_def yearly_means_def in_band_def)
qed

lemma computeGroupAverages_loop_strip_eq:
  "computeGroupAverages_loop_strip gs data groups bands acc =
     computeGroupAverages_loop gs data groups bands acc"
proof (cases data)
  case None
  show ?thesis
    unfolding None by (induction gs arbitrary: acc) (simp_all add: Let_def)
next
  case (Some rows)
  show ?thesis
    unfolding Some
    by (induction gs arbitrary: acc)
      (simp_all add: Let_def group_rows_def yearly_means_def in_band_def)
qed

text \<open>
  C9: \<open>handleBandClick\<close> and \<open>computeGroupAverages\<close> of the annotated variant and of the
  variant with the strip map return what the functions of \<open>global.js\<close> return, for every
  band id and grouping, and for every dataset (loaded or not), grouping and band list.
\<close>

theorem variants_agree:
  "handleBandClick_annotated b G = handleBandClick b G
   \<and> handleBandClick_strip b G = handleBandClick b G
   \<and> computeGroupAverages_annotated data groups bands = computeGroupAverages data groups bands
   \<and> computeGroupAverages_strip data groups bands = computeGroupAverages data groups bands"
  by (simp add: handleBandClick_annotated_eq handleBandClick_strip_eq
      computeGroupAverages_annotated_def computeGroupAverages_strip_def
      computeGroupAverages_def computeGroupAverages_loop_annotated_eq
      computeGroupAverages_loop_strip_eq)

section \<open>Properties of the annotated chart\<close>

lemma fcard_two_members:
  assumes "fcard S = 2" "a \<noteq> b"
  shows "a |\<in>| S \<and> b |\<in>| S \<longleftrightarrow> S = {|a, b|}"
proof
  assume m: "a |\<in>| S \<and> b |\<in>| S"
  then have "{|a, b|} |\<subseteq>| S" by auto
  moreover have "fcard S \<le> fcard {|a, b|}"
    using assms by (simp add: fcard_finsert_if)
  ultimately show "S = {|a, b|}"
    by (rule fcard_seteq [symmetric])
next
  assume "S = {|a, b|}"
  then show "a |\<in>| S \<and> b |\<in>| S" by simp
qed

lemma find_entries:
  "find (\<lambda>(g, s). list_all (\<lambda>b. b |\<in>| s) [a, b]) (map (\<lambda>g. (g, G g)) [1, 2, 3::nat]) \<noteq> None
     \<longleftrightarrow> (a |\<in>| G 1 \<and> b |\<in>| G 1) \<or> (a |\<in>| G 2 \<and> b |\<in>| G 2) \<or> (a |\<in>| G 3 \<and> b |\<in>| G 3)"
  by simp

lemma three_sets:
  assumes "A \<noteq> B" "A \<noteq> C" "B \<noteq> C"
  shows "(X = A \<or> Y = A \<or> Z = A) \<and> (X = B \<or> Y = B \<or> Z = B) \<and> (X = C \<or> Y = C \<or> Z = C)
     \<longleftrightarrow> {X, Y, Z} = {A, B, C}"
proof
  assume "(X = A \<or> Y = A \<or> Z = A) \<and> (X = B \<or> Y = B \<or> Z = B) \<and> (X = C \<or> Y = C \<or> Z = C)"
  then show "{X, Y, Z} = {A, B, C}"
    using assms by (elim conjE disjE) auto
next
  assume e: "{X, Y, Z} = {A, B, C}"
  have "A \<in> {X, Y, Z}" "B \<in> {X, Y, Z}" "C \<in> {X, Y, Z}"
    unfolding e by simp_all
  then show "(X = A \<or> Y = A \<or> Z = A) \<and> (X = B \<or> Y = B \<or> Z = B) \<and> (X = C \<or> Y = C \<or> Z = C)"
    by auto
qed


lemma groupsMatchDefaultPattern_iff:
  "groupsMatchDefaultPattern G \<longleftrightarrow>
     fcard (G 1) = 2 \<and> fcard (G 2) = 2 \<and> fcard (G 3) = 2
     \<and> {G 1, G 2, G 3} = {{|0, 5|}, {|1, 4|}, {|2, 3|}}"
proof (cases "fcard (G 1) = 2 \<and> fcard (G 2) = 2 \<and> fcard (G 3) = 2")
  case False
  then show ?thesis
    by (auto simp add: groupsMatchDefaultPattern_def)
next
  case True
  then have c: "fcard (G 1) = 2" "fcard (G 2) = 2" "fcard (G 3) = 2"
    by simp_all
  have ne: "{|0, 5|} \<noteq> {|2, 3::nat|}" "{|0, 5|} \<noteq> {|1, 4::nat|}" "{|2, 3|} \<noteq> {|1, 4::nat|}"
    by (auto simp add: fset_eq_iff)
  have "groupsMatchDefaultPattern G \<longleftrightarrow>
      (G 1 = {|0, 5|} \<or> G 2 = {|0, 5|} \<or> G 3 = {|0, 5|})
    \<and> (G 1 = {|2, 3|} \<or> G 2 = {|2, 3|} \<or> G 3 = {|2, 3|})
    \<and> (G 1 = {|1, 4|} \<or> G 2 = {|1, 4|} \<or> G 3 = {|1, 4|})"
    unfolding groupsMatchDefaultPattern_def Let_def find_entries
    using c by (simp add: fcard_two_members)
  also have "\<dots> \<longleftrightarrow> {G 1, G 2, G 3} = {{|0, 5|}, {|2, 3|}, {|1, 4|}}"
    using ne by (rule three_sets)
  also have "{{|0, 5|}, {|2, 3|}, {|1, 4::nat|}} = {{|0, 5|}, {|1, 4|}, {|2, 3|}}"
    by (rule insert_commute [THEN arg_cong])
  finally show ?thesis
    using c by simp
qed

text \<open>
  C5: \<open>groupsMatchDefaultPattern\<close> holds exactly when each of the three groups has two
  bands and the three groups are the sets \<open>{0, 5}\<close>, \<open>{1, 4}\<close> and \<open>{2, 3}\<close> in some
  order; \<open>renderTASChart\<close> draws the two callouts when it holds and none otherwise.
\<close>

theorem annotation_callouts:
  "(groupsMatchDefaultPattern G \<longleftrightarrow>
      fcard (G 1) = 2 \<and> fcard (G 2) = 2 \<and> fcard (G 3) = 2
      \<and> {G 1, G 2, G 3} = {{|0, 5|}, {|1, 4|}, {|2, 3|}})
   \<and> chart_callouts (renderTASChart G groupedData) =
       (if fcard (G 1) = 2 \<and> fcard (G 2) = 2 \<and> fcard (G 3) = 2
           \<and> {G 1, G 2, G 3} = {{|0, 5|}, {|1, 4|}, {|2, 3|}}
        then [Polar_warming, Aerosol_dip] else [])"
  using groupsMatchDefaultPattern_iff [of G] by (simp add: renderTASChart_def)

section \<open>Properties of the loader\<close>

text \<open>
  C6: when the fetch or the parse fails, \<open>loadTASData\<close> logs the error and returns
  \<open>undefined\<close>; when it succeeds, it returns one record of three numbers per row of the
  file, in order; either way it has made one request.
\<close>

theorem loader_outcomes:
  "(d3_csv ''data/zonal_anomaly.csv'' = Inl e \<longrightarrow>
      loadTASData to_number d3_csv io =
        (io\<lparr>requested := requested io @ [''data/zonal_anomaly.csv''],
            logged := logged io @ [e]\<rparr>, None))
   \<and> (d3_csv ''data/zonal_anomaly.csv'' = Inr csv_rows \<longrightarrow>
      (\<exists>out. loadTASData to_number d3_csv io =
              (io\<lparr>requested := requested io @ [''data/zonal_anomaly.csv'']\<rparr>, Some out)
         \<and> length out = length csv_rows
         \<and> (\<forall>i < length csv_rows.
               out ! i = \<lparr>year = to_number ((csv_rows ! i) ''year''),
                          lat = to_number ((csv_rows ! i) ''lat''),
                          tas = to_number ((csv_rows ! i) ''tas'')\<rparr>)))"
  by (simp add: loadTASData_def Let_def)

theorem loader_outcomes_witness:
  "loadTASData (\<lambda>cell. if cell = Some ''1'' then Fin 1 else NaN)
       (\<lambda>url. Inl ''404'') \<lparr>requested = [], logged = []\<rparr>
     = (\<lparr>requested = [''data/zonal_anomaly.csv''], logged = [''404'']\<rparr>, None)
   \<and> loadTASData (\<lambda>cell. if cell = Some ''1'' then Fin 1 else NaN)
       (\<lambda>url. Inr [[''year'' \<mapsto> ''1'', ''lat'' \<mapsto> ''1'', ''tas'' \<mapsto> ''x'']])
       \<lparr>requested = [], logged = ([] :: string list)\<rparr>
     = (\<lparr>requested = [''data/zonal_anomaly.csv''], logged = []\<rparr>,
        Some [\<lparr>year = Fin 1, lat = Fin 1, tas = NaN\<rparr>])"
  using
    loader_outcomes [of "\<lambda>url. Inl ''404''" "''404''"
      "\<lambda>cell. if cell = Some ''1'' then Fin 1 else NaN"
      "\<lparr>requested = [], logged = []\<rparr>" "[]"]
    loader_outcomes [of "\<lambda>url. Inr [[''year'' \<mapsto> ''1'', ''lat'' \<mapsto> ''1'', ''tas'' \<mapsto> ''x'']]"
      "''none''" "\<lambda>cell. if cell = Some ''1'' then Fin 1 else NaN"
      "\<lparr>requested = [], logged = []\<rparr>"
      "[[''year'' \<mapsto> ''1'', ''lat'' \<mapsto> ''1'', ''tas'' \<mapsto> ''x'']]"]
  by (simp add: loadTASData_def)

end
